theory Spec2Isabelle
  imports Complex_Main
begin

section \<open>The host scene\<close>

text \<open>
  The script \<^verbatim>\<open>rig_ripper.py\<close> runs inside a 3D application and reads and edits the
  scene only through the host's API. A scene node (mesh, joint, transform, skin deformer)
  is referred to by its name. The record \<open>scene\<close> holds the answers of the host queries
  the script makes:
  \<^item> \<open>objectType sc x\<close> is \<^verbatim>\<open>pymel.objectType(x)\<close>;
  \<^item> \<open>skinClusters sc x\<close> is \<^verbatim>\<open>pymel.ls(pymel.listHistory(x), type='skinCluster')\<close>;
  \<^item> \<open>all_joints sc\<close> is \<^verbatim>\<open>pymel.ls(type='joint')\<close> and \<open>all_mesh sc\<close> is
    \<^verbatim>\<open>pymel.ls(type='mesh')\<close>;
  \<^item> \<open>cluster_influences sc s\<close> is \<^verbatim>\<open>pymel.skinCluster(s, query=True, inf=True)\<close>;
  \<^item> \<open>skinPercent sc s v j\<close> is \<^verbatim>\<open>pymel.skinPercent(s, v, transform=j, query=True)\<close>;
  \<^item> \<open>parent sc x\<close> is the parent of \<open>x\<close> in the scene hierarchy, \<open>None\<close> for a
    top-level node: \<^verbatim>\<open>x.getParent()\<close>, and the one element (if any) of
    \<^verbatim>\<open>pymel.listRelatives(x, parent=True)\<close>;
  \<^item> \<open>node_of sc x\<close> is \<^verbatim>\<open>x.node()\<close>;
  \<^item> \<open>selected sc\<close> is \<^verbatim>\<open>pymel.ls(selection=True)\<close>.
\<close>

type_synonym node = string

record scene =
  objectType :: "node \<Rightarrow> string"
  skinClusters :: "node \<Rightarrow> node list"
  all_joints :: "node list"
  all_mesh :: "node list"
  cluster_influences :: "node \<Rightarrow> node list"
  skinPercent :: "node \<Rightarrow> node \<Rightarrow> node \<Rightarrow> real"
  parent :: "node \<Rightarrow> node option"
  node_of :: "node \<Rightarrow> node"
  selected :: "node list"

text \<open>
  The values the script stores in \<^verbatim>\<open>joint_hierarchy\<close>: a node (the loop variable
  \<^verbatim>\<open>j\<close>), or the list returned by \<^verbatim>\<open>pymel.listRelatives\<close> (the variable
  \<^verbatim>\<open>joint_parent\<close>). Python's \<^verbatim>\<open>in\<close> compares with \<^verbatim>\<open>==\<close>, under which a list
  and a node are never equal; that is the equality of this datatype.
\<close>

datatype pyval = PyNode node | PyList "node list"

text \<open>
  What \<^verbatim>\<open>get_joint_hierarchy\<close> returns: the list \<^verbatim>\<open>joint_hierarchy\<close>, or the pair
  of the list and the root when \<^verbatim>\<open>root_request\<close> is true.
\<close>

datatype hierarchy_result = Hierarchy "pyval list" | HierarchyRoot "pyval list" node

text \<open>
  The host commands that edit the scene. The script's source does not say what they do,
  so they are parameters of the model: \<open>mel_eval h cmd\<close> is \<^verbatim>\<open>mel.eval(cmd)\<close>,
  \<open>delete_selected h\<close> is \<^verbatim>\<open>pymel.delete()\<close>, \<open>delete_nodes h xs\<close> is
  \<^verbatim>\<open>pymel.delete(xs)\<close>, \<open>select_nodes h xs\<close> is \<^verbatim>\<open>pymel.select(xs)\<close> and
  \<open>deselect_nodes h xs\<close> is \<^verbatim>\<open>pymel.select(xs, deselect=True)\<close>, whose argument
  is the value \<^verbatim>\<open>get_joint_hierarchy\<close> returned.
\<close>

record host =
  mel_eval :: "string \<Rightarrow> scene \<Rightarrow> scene"
  delete_selected :: "scene \<Rightarrow> scene"
  delete_nodes :: "node option list \<Rightarrow> scene \<Rightarrow> scene"
  select_nodes :: "node list \<Rightarrow> scene \<Rightarrow> scene"
  deselect_nodes :: "hierarchy_result \<Rightarrow> scene \<Rightarrow> scene"

text \<open>
  What a run can change: the scene, the warnings shown to the user, and a log of the
  calls \<^verbatim>\<open>rip_rig\<close> has made so far (a ghost field: it records control flow only).
\<close>

record world =
  the_scene :: scene
  warnings :: "string list"
  calls :: "string list"

definition warning :: "string \<Rightarrow> world \<Rightarrow> world" where
  "warning msg w = w\<lparr>warnings := warnings w @ [msg]\<rparr>"

definition enter :: "string \<Rightarrow> world \<Rightarrow> world" where
  "enter f w = w\<lparr>calls := calls w @ [f]\<rparr>"

datatype error = IndexError | NameError string | UnboundLocalError string

section \<open>validate\_selection\<close>

text \<open>The loop of lines 22 to 28, with the list \<^verbatim>\<open>geometry\<close> built so far.\<close>

fun validate_loop :: "world \<Rightarrow> node list \<Rightarrow> node list \<Rightarrow> (bool \<times> node list) \<times> world" where
  "validate_loop w geometry [] = ((True, geometry), w)"
| "validate_loop w geometry (i # rest) =
     (if objectType (the_scene w) i \<noteq> ''mesh''
      then ((False, geometry), warning ''please select only faces'' w)
      else validate_loop w (geometry @ [i]) rest)"

definition validate_selection :: "world \<Rightarrow> node list \<Rightarrow> (bool \<times> node list) \<times> world" where
  "validate_selection w selection = validate_loop w [] selection"

section \<open>get\_joint\_hierarchy\<close>

text \<open>
  Lines 54 to 60: the loop over \<^verbatim>\<open>all_joints\<close> for one item \<^verbatim>\<open>vert\<close> and its
  skin deformer \<^verbatim>\<open>sc\<close>. The state is the list \<^verbatim>\<open>influential_joints\<close> and the
  loop variable \<^verbatim>\<open>j\<close> (\<open>None\<close> while it is unbound), which line 81 reads later.
\<close>

fun joints_loop ::
  "scene \<Rightarrow> node \<Rightarrow> node \<Rightarrow> node list \<Rightarrow> node list \<Rightarrow> node list \<times> node option
    \<Rightarrow> node list \<times> node option" where
  "joints_loop sc s vert influences [] st = st"
| "joints_loop sc s vert influences (j # rest) (influential_joints, jvar) =
     joints_loop sc s vert influences rest
       (if j \<in> set influences
        then (if skinPercent sc s vert j > 0 \<and> j \<notin> set influential_joints
              then influential_joints @ [j] else influential_joints)
        else influential_joints,
        Some j)"

text \<open>
  Lines 50 to 60: the loop over the items of \<^verbatim>\<open>geometry\<close>. Line 51 takes element 0 of
  the item's own list of skin deformers and raises IndexError when the list is empty.
\<close>

fun vert_loop ::
  "scene \<Rightarrow> node list \<Rightarrow> node list \<times> node option \<Rightarrow> error + (node list \<times> node option)" where
  "vert_loop sc [] st = Inr st"
| "vert_loop sc (vert # rest) st =
     (case skinClusters sc vert of
        [] \<Rightarrow> Inl IndexError
      | s # _ \<Rightarrow>
          vert_loop sc rest
            (joints_loop sc s vert (cluster_influences sc s) (all_joints sc) st))"

text \<open>
  \<^verbatim>\<open>pymel.listRelatives(x, parent=True)\<close>, for a node or a list of nodes \<open>xs\<close>: the
  list of the parents of its elements.
\<close>

definition listRelatives_parent :: "scene \<Rightarrow> node list \<Rightarrow> node list" where
  "listRelatives_parent sc xs =
     concat (map (\<lambda>x. case parent sc x of None \<Rightarrow> [] | Some p \<Rightarrow> [p]) xs)"

text \<open>
  Lines 70 to 74: one test of the \<^verbatim>\<open>while joint_parent:\<close> condition followed by one
  run of the loop body, on the state (\<^verbatim>\<open>joint_parent\<close>, \<^verbatim>\<open>joint_hierarchy\<close>).
  \<open>None\<close> means that the loop is left.
\<close>

definition walk_step :: "scene \<Rightarrow> node list \<times> pyval list \<Rightarrow> (node list \<times> pyval list) option" where
  "walk_step sc st =
     (case st of (joint_parent, joint_hierarchy) \<Rightarrow>
        if joint_parent \<noteq> []
        then Some (listRelatives_parent sc joint_parent,
                   if PyList joint_parent \<notin> set joint_hierarchy
                   then joint_hierarchy @ [PyList joint_parent] else joint_hierarchy)
        else None)"

text \<open>The while loop: \<open>None\<close> when it runs forever, else the final \<^verbatim>\<open>joint_hierarchy\<close>.\<close>

partial_function (option) walk_parents :: "scene \<Rightarrow> node list \<times> pyval list \<Rightarrow> pyval list option" where
  "walk_parents sc st =
     (case walk_step sc st of None \<Rightarrow> Some (snd st) | Some st' \<Rightarrow> walk_parents sc st')"

text \<open>Lines 66 to 74: the loop over \<^verbatim>\<open>influential_joints\<close>.\<close>

fun hierarchy_loop ::
  "scene \<Rightarrow> node list \<Rightarrow> pyval list \<times> node option \<Rightarrow> (pyval list \<times> node option) option" where
  "hierarchy_loop sc [] st = Some st"
| "hierarchy_loop sc (j # rest) (joint_hierarchy, jvar) =
     (case walk_parents sc (listRelatives_parent sc [j], joint_hierarchy @ [PyNode j]) of
        None \<Rightarrow> None
      | Some joint_hierarchy' \<Rightarrow> hierarchy_loop sc rest (joint_hierarchy', Some j))"

text \<open>Lines 82 to 87: the \<^verbatim>\<open>while True\<close> loop that climbs from \<^verbatim>\<open>current\<close>.\<close>

partial_function (option) find_root :: "scene \<Rightarrow> node \<Rightarrow> node option" where
  "find_root sc current =
     (case listRelatives_parent sc [current] of
        [] \<Rightarrow> Some current
      | p # _ \<Rightarrow> find_root sc p)"

text \<open>
  Lines 80 to 87: the loop over \<^verbatim>\<open>joint_hierarchy\<close>. Its body never reads the loop
  variable \<^verbatim>\<open>jnt\<close>: it starts from \<^verbatim>\<open>pymel.PyNode(j)\<close>, where \<^verbatim>\<open>j\<close> is the
  variable left by the earlier loops. The state is the variable \<^verbatim>\<open>root\<close>.
\<close>

fun root_loop ::
  "scene \<Rightarrow> node option \<Rightarrow> pyval list \<Rightarrow> node option \<Rightarrow> (error + node option) option" where
  "root_loop sc jvar [] root_var = Some (Inr root_var)"
| "root_loop sc jvar (jnt # rest) root_var =
     (case jvar of
        None \<Rightarrow> Some (Inl (UnboundLocalError ''j''))
      | Some j \<Rightarrow>
          (case find_root sc j of
             None \<Rightarrow> None
           | Some r \<Rightarrow> root_loop sc jvar rest (Some r)))"

text \<open>
  The whole function. \<open>None\<close>: it does not return; \<open>Some (Inl e)\<close>: it raises \<open>e\<close>;
  \<open>Some (Inr r)\<close>: it returns \<open>r\<close>. The variable \<^verbatim>\<open>skin_clusters\<close> of lines 41 and 42
  is assigned in a loop of its own and never read.
\<close>

definition get_joint_hierarchy ::
  "scene \<Rightarrow> node list \<Rightarrow> bool \<Rightarrow> (error + hierarchy_result) option" where
  "get_joint_hierarchy sc geometry root_request =
     (let skin_clusters = foldl (\<lambda>_ i. Some (skinClusters sc i)) None geometry in
      case vert_loop sc geometry ([], None) of
        Inl e \<Rightarrow> Some (Inl e)
      | Inr (influential_joints, jvar) \<Rightarrow>
          (case hierarchy_loop sc influential_joints ([], jvar) of
             None \<Rightarrow> None
           | Some (joint_hierarchy, jvar') \<Rightarrow>
               if \<not> root_request then Some (Inr (Hierarchy joint_hierarchy))
               else
                 (case root_loop sc jvar' joint_hierarchy None of
                    None \<Rightarrow> None
                  | Some (Inl e) \<Rightarrow> Some (Inl e)
                  | Some (Inr None) \<Rightarrow> Some (Inl (UnboundLocalError ''root''))
                  | Some (Inr (Some root_var)) \<Rightarrow>
                      Some (Inr (HierarchyRoot joint_hierarchy root_var)))))"

section \<open>The deletion stages\<close>

text \<open>
  The names bound in the module's namespace when \<^verbatim>\<open>rip_rig(selection)\<close> runs on
  line 153: the two imports of lines 6 and 7, the variable of line 9 and the five
  functions. No Python builtin is called \<^verbatim>\<open>mel\<close>.
\<close>

definition module_globals :: "string list" where
  "module_globals =
     [''pymel'', ''cmds'', ''selection'', ''validate_selection'', ''get_joint_hierarchy'',
      ''isolate_geometry'', ''isolate_joint_hierarchy'', ''rip_rig'']"

definition name_bound :: "string list \<Rightarrow> string \<Rightarrow> bool" where
  "name_bound env n = (n \<in> set env)"

text \<open>Lines 106 to 111.\<close>

fun all_mesh_transforms_loop :: "scene \<Rightarrow> node list \<Rightarrow> node option list \<Rightarrow> node option list" where
  "all_mesh_transforms_loop sc [] all_mesh_transforms = all_mesh_transforms"
| "all_mesh_transforms_loop sc (mesh # rest) all_mesh_transforms =
     (let mesh_transform = parent sc mesh in
      all_mesh_transforms_loop sc rest
        (if mesh_transform \<notin> set all_mesh_transforms
         then all_mesh_transforms @ [mesh_transform] else all_mesh_transforms))"

text \<open>Lines 113 to 119.\<close>

fun selection_shells_loop :: "scene \<Rightarrow> node list \<Rightarrow> node option list \<Rightarrow> node option list" where
  "selection_shells_loop sc [] selection_shells = selection_shells"
| "selection_shells_loop sc (mesh # rest) selection_shells =
     (let shape = node_of sc mesh; transform = parent sc shape in
      selection_shells_loop sc rest
        (if transform \<notin> set selection_shells
         then selection_shells @ [transform] else selection_shells))"

text \<open>
  \<^verbatim>\<open>isolate_geometry\<close>, in the namespace \<open>env\<close>. Its first statement evaluates the
  name \<^verbatim>\<open>mel\<close>, which raises NameError when \<open>env\<close> does not bind it.
\<close>

definition isolate_geometry ::
  "string list \<Rightarrow> host \<Rightarrow> world \<Rightarrow> node list \<Rightarrow> (error + unit) \<times> world" where
  "isolate_geometry env h w geometry =
     (if \<not> name_bound env ''mel'' then (Inl (NameError ''mel''), w)
      else
        let sc1 = mel_eval h ''invertSelection;'' (the_scene w);
            sc2 = delete_selected h sc1;
            all_mesh_transforms = all_mesh_transforms_loop sc2 (all_mesh sc2) [];
            selection_shells = selection_shells_loop sc2 geometry [];
            shells_for_delete =
              filter (\<lambda>mesh. mesh \<notin> set selection_shells) all_mesh_transforms
        in (Inr (), w\<lparr>the_scene := delete_nodes h shells_for_delete sc2\<rparr>))"

text \<open>
  \<^verbatim>\<open>isolate_joint_hierarchy\<close>: the two \<^verbatim>\<open>pymel.select\<close> calls run before line 135
  evaluates the name \<^verbatim>\<open>mel\<close>.
\<close>

definition isolate_joint_hierarchy ::
  "string list \<Rightarrow> host \<Rightarrow> world \<Rightarrow> hierarchy_result \<Rightarrow> (error + unit) \<times> world" where
  "isolate_joint_hierarchy env h w joint_hierarchy =
     (let sc0 = the_scene w;
          sc1 = select_nodes h (all_joints sc0) sc0;
          sc2 = deselect_nodes h joint_hierarchy sc1
      in if \<not> name_bound env ''mel'' then (Inl (NameError ''mel''), w\<lparr>the_scene := sc2\<rparr>)
         else (Inr (), w\<lparr>the_scene := mel_eval h ''doDelete'' sc2\<rparr>))"

section \<open>rip\_rig\<close>

text \<open>
  Lines 145 to 150. The result is \<open>None\<close> when the run does not end, else the outcome
  (\<open>Inl e\<close> for an uncaught error \<open>e\<close>, \<open>Inr ()\<close> for a normal return) and the world
  it leaves. Each call is entered in the log before it runs.
\<close>

definition rip_rig ::
  "string list \<Rightarrow> host \<Rightarrow> world \<Rightarrow> node list \<Rightarrow> ((error + unit) \<times> world) option" where
  "rip_rig env h w selection =
     (case validate_selection (enter ''validate_selection'' w) selection of
        ((valid, geometry), w1) \<Rightarrow>
          if valid \<and> length selection = length geometry then
            (let w2 = enter ''get_joint_hierarchy'' w1 in
             case get_joint_hierarchy (the_scene w2) geometry False of
               None \<Rightarrow> None
             | Some (Inl e) \<Rightarrow> Some (Inl e, w2)
             | Some (Inr joint_hierarchy) \<Rightarrow>
                 (case isolate_geometry env h (enter ''isolate_geometry'' w2) geometry of
                    (Inl e, w3) \<Rightarrow> Some (Inl e, w3)
                  | (Inr u, w3) \<Rightarrow>
                      Some (isolate_joint_hierarchy env h
                              (enter ''isolate_joint_hierarchy'' w3) joint_hierarchy)))
          else Some (Inr (), w1))"

text \<open>Lines 9 and 153: the script reads the host's selection and runs \<^verbatim>\<open>rip_rig\<close> on it.\<close>

definition script :: "host \<Rightarrow> world \<Rightarrow> ((error + unit) \<times> world) option" where
  "script h w = rip_rig module_globals h w (selected (the_scene w))"

section \<open>Vocabulary of the properties\<close>

text \<open>
  \<open>parent_rel sc\<close> relates a parent to its child. The host keeps the scene hierarchy
  acyclic: no node has an endless chain of parents, which is \<open>wf (parent_rel sc)\<close>.
  \<open>ancestors sc n\<close> are the nodes strictly above \<open>n\<close>.
\<close>

definition parent_rel :: "scene \<Rightarrow> (node \<times> node) set" where
  "parent_rel sc = {(p, c). parent sc c = Some p}"

definition ancestors :: "scene \<Rightarrow> node \<Rightarrow> node set" where
  "ancestors sc n = {a. (a, n) \<in> (parent_rel sc)\<^sup>+}"

text \<open>
  The influential joints as the specification words them: a joint of the scene whose
  queried weight is strictly positive for at least one item. The weight of joint \<open>j\<close>
  is queried for item \<open>vert\<close> on the first skin deformer \<open>s\<close> of \<open>vert\<close>, when \<open>j\<close>
  is an influence of \<open>s\<close>.
\<close>

definition influential :: "scene \<Rightarrow> node list \<Rightarrow> node set" where
  "influential sc geometry =
     {j \<in> set (all_joints sc). \<exists>vert \<in> set geometry. \<exists>s rest.
        skinClusters sc vert = s # rest \<and> j \<in> set (cluster_influences sc s) \<and>
        0 < skinPercent sc s vert j}"

definition ancestor_closure :: "scene \<Rightarrow> node set \<Rightarrow> node set" where
  "ancestor_closure sc J = J \<union> (\<Union>j \<in> J. ancestors sc j)"

text \<open>The set of nodes that a value of \<^verbatim>\<open>joint_hierarchy\<close> holds.\<close>

fun nodes_of_pyval :: "pyval \<Rightarrow> node set" where
  "nodes_of_pyval (PyNode n) = {n}"
| "nodes_of_pyval (PyList ns) = set ns"

definition joint_set :: "pyval list \<Rightarrow> node set" where
  "joint_set joint_hierarchy = (\<Union>v \<in> set joint_hierarchy. nodes_of_pyval v)"

text \<open>The calls logged between the world \<open>w\<close> a run starts in and the world \<open>w'\<close> it leaves.\<close>

definition calls_made :: "world \<Rightarrow> world \<Rightarrow> string list" where
  "calls_made w w' = drop (length (calls w)) (calls w')"

section \<open>A sample scene\<close>

text \<open>
  Two skeletons, \<open>A \<rightarrow> B \<rightarrow> {C, D}\<close> and \<open>E \<rightarrow> F\<close>. The mesh \<open>body\<close> is bound by
  \<open>skin1\<close> to the first, with weight on \<open>C\<close> and \<open>D\<close> only; the mesh \<open>prop\<close> is bound
  by \<open>skin2\<close> to the second, with weight on \<open>F\<close>; the mesh \<open>hat\<close> has no skin
  deformer; \<open>lamp\<close> is not a mesh.
\<close>

definition demo :: scene where
  "demo = \<lparr>
     objectType = (\<lambda>x. if x \<in> set [''body'', ''prop'', ''hat''] then ''mesh''
                        else if x \<in> set [''A'', ''B'', ''C'', ''D'', ''E'', ''F''] then ''joint''
                        else if x \<in> set [''skin1'', ''skin2''] then ''skinCluster''
                        else ''transform''),
     skinClusters = (\<lambda>x. if x = ''body'' then [''skin1'']
                          else if x = ''prop'' then [''skin2''] else []),
     all_joints = [''A'', ''B'', ''C'', ''D'', ''E'', ''F''],
     all_mesh = [''body'', ''prop'', ''hat''],
     cluster_influences = (\<lambda>s. if s = ''skin1'' then [''A'', ''B'', ''C'', ''D'']
                                else if s = ''skin2'' then [''E'', ''F''] else []),
     skinPercent = (\<lambda>s v j. if s = ''skin1'' \<and> v = ''body'' \<and> j = ''C'' then 3 / 4
                             else if s = ''skin1'' \<and> v = ''body'' \<and> j = ''D'' then 1 / 4
                             else if s = ''skin2'' \<and> v = ''prop'' \<and> j = ''F'' then 1
                             else 0),
     parent = map_of [(''B'', ''A''), (''C'', ''B''), (''D'', ''B''), (''F'', ''E''),
                      (''body'', ''body_grp''), (''prop'', ''prop_grp''),
                      (''hat'', ''hat_grp'')],
     node_of = (\<lambda>x. x),
     selected = [''body''] \<rparr>"

definition demo_world :: world where
  "demo_world = \<lparr> the_scene = demo, warnings = [], calls = [] \<rparr>"

text \<open>A host whose editing commands would each empty a part of the scene.\<close>

definition demo_host :: host where
  "demo_host = \<lparr>
     mel_eval = (\<lambda>cmd sc. sc\<lparr>all_joints := []\<rparr>),
     delete_selected = (\<lambda>sc. sc\<lparr>all_mesh := []\<rparr>),
     delete_nodes = (\<lambda>xs sc. sc\<lparr>all_mesh := []\<rparr>),
     select_nodes = (\<lambda>xs sc. sc\<lparr>selected := xs\<rparr>),
     deselect_nodes = (\<lambda>r sc. sc\<lparr>selected := []\<rparr>) \<rparr>"

text \<open>A depth for the nodes of the sample scene: every parent is less deep than its child.\<close>

definition demo_depth :: "node \<Rightarrow> nat" where
  "demo_depth n = (if n \<in> set [''C'', ''D''] then 2
                   else if n \<in> set [''B'', ''F'', ''body'', ''prop'', ''hat''] then 1 else 0)"

section \<open>Influence discovery\<close>

lemma joints_loop_set:
  "set (fst (joints_loop sc s vert influences js (acc, jv))) =
     set acc \<union> {j \<in> set js. j \<in> set influences \<and> 0 < skinPercent sc s vert j}"
  by (induction js arbitrary: acc jv) auto

lemma joints_loop_jvar:
  "snd (joints_loop sc s vert influences js (acc, jv)) = (if js = [] then jv else Some (last js))"
  by (induction js arbitrary: acc jv) auto

lemma vert_loop_raises:
  "\<exists>v \<in> set vs. skinClusters sc v = [] \<Longrightarrow> vert_loop sc vs st = Inl IndexError"
proof (induction vs arbitrary: st)
  case Nil
  then show ?case by simp
next
  case (Cons a vs)
  show ?case
  proof (cases "skinClusters sc a")
    case Nil
    then show ?thesis by simp
  next
    case (Cons s rest)
    with Cons.prems have "\<exists>v \<in> set vs. skinClusters sc v = []" by auto
    from Cons.IH [OF this] show ?thesis using Cons by simp
  qed
qed

lemma influential_Nil: "influential sc [] = {}"
  by (simp add: influential_def)

lemma influential_Cons:
  "skinClusters sc v = s # rest \<Longrightarrow>
   influential sc (v # vs) =
     {j \<in> set (all_joints sc). j \<in> set (cluster_influences sc s) \<and> 0 < skinPercent sc s v j}
     \<union> influential sc vs"
  by (auto simp: influential_def)

lemma vert_loop_returns:
  "\<forall>v \<in> set vs. skinClusters sc v \<noteq> [] \<Longrightarrow>
   \<exists>infl jv. vert_loop sc vs (acc, jv0) = Inr (infl, jv) \<and> set infl = set acc \<union> influential sc vs"
proof (induction vs arbitrary: acc jv0)
  case Nil
  then show ?case by (simp add: influential_Nil)
next
  case (Cons v vs)
  then obtain s rest where s: "skinClusters sc v = s # rest"
    by (cases "skinClusters sc v") auto
  obtain acc' jv' where j: "joints_loop sc s v (cluster_influences sc s) (all_joints sc) (acc, jv0) = (acc', jv')"
    by (cases "joints_loop sc s v (cluster_influences sc s) (all_joints sc) (acc, jv0)")
  have acc': "set acc' = set acc \<union> {j \<in> set (all_joints sc). j \<in> set (cluster_influences sc s) \<and> 0 < skinPercent sc s v j}"
    using joints_loop_set [of sc s v "cluster_influences sc s" "all_joints sc" acc jv0] j by simp
  from Cons.prems have "\<forall>v \<in> set vs. skinClusters sc v \<noteq> []" by simp
  from Cons.IH [OF this, of acc' jv'] obtain infl jv where
    r: "vert_loop sc vs (acc', jv') = Inr (infl, jv)" "set infl = set acc' \<union> influential sc vs"
    by blast
  show ?case using s j r acc' by (auto simp: influential_Cons [OF s])
qed

section \<open>The walk to the root\<close>

lemma ancestors_root: "parent sc n = None \<Longrightarrow> ancestors sc n = {}"
  by (auto simp: ancestors_def parent_rel_def dest: tranclD2)

lemma ancestors_child: "parent sc n = Some p \<Longrightarrow> ancestors sc n = insert p (ancestors sc p)"
proof -
  assume p: "parent sc n = Some p"
  have "\<And>a. (a, n) \<in> (parent_rel sc)\<^sup>+ \<longleftrightarrow> a = p \<or> (a, p) \<in> (parent_rel sc)\<^sup>+"
  proof
    fix a assume "(a, n) \<in> (parent_rel sc)\<^sup>+"
    then obtain z where "(a, z) \<in> (parent_rel sc)\<^sup>*" "(z, n) \<in> parent_rel sc"
      by (blast dest: tranclD2)
    moreover then have "z = p" using p by (simp add: parent_rel_def)
    ultimately show "a = p \<or> (a, p) \<in> (parent_rel sc)\<^sup>+"
      by (auto simp: rtrancl_eq_or_trancl)
  next
    fix a assume "a = p \<or> (a, p) \<in> (parent_rel sc)\<^sup>+"
    moreover have "(p, n) \<in> parent_rel sc" using p by (simp add: parent_rel_def)
    ultimately show "(a, n) \<in> (parent_rel sc)\<^sup>+" by (auto intro: trancl_into_trancl)
  qed
  then show ?thesis by (auto simp: ancestors_def)
qed

lemma walk_parents_Nil: "walk_parents sc ([], jh) = Some jh"
  by (subst walk_parents.simps) (simp add: walk_step_def)

lemma walk_parents_single:
  "walk_parents sc ([n], jh) =
     walk_parents sc (listRelatives_parent sc [n],
                      if PyList [n] \<notin> set jh then jh @ [PyList [n]] else jh)"
  by (subst walk_parents.simps) (simp add: walk_step_def)

lemma joint_set_append: "joint_set (xs @ ys) = joint_set xs \<union> joint_set ys"
  by (auto simp: joint_set_def)

lemma joint_set_member: "v \<in> set jh \<Longrightarrow> nodes_of_pyval v \<subseteq> joint_set jh"
  by (auto simp: joint_set_def)

lemma walk_parents_from:
  assumes "wf (parent_rel sc)"
  shows "\<exists>jh'. walk_parents sc ([n], jh) = Some jh' \<and>
           joint_set jh' = joint_set jh \<union> insert n (ancestors sc n) \<and> set jh \<subseteq> set jh'"
  using assms
proof (induction n arbitrary: jh rule: wf_induct_rule)
  case (less n)
  let ?jh1 = "if PyList [n] \<notin> set jh then jh @ [PyList [n]] else jh"
  have js1: "joint_set ?jh1 = joint_set jh \<union> {n}"
    using joint_set_member [of "PyList [n]" jh] by (auto simp: joint_set_append joint_set_def)
  have sub1: "set jh \<subseteq> set ?jh1" by auto
  show ?case
  proof (cases "parent sc n")
    case None
    then have "walk_parents sc ([n], jh) = Some ?jh1"
      by (subst walk_parents_single) (simp add: listRelatives_parent_def walk_parents_Nil)
    then show ?thesis using js1 sub1 None by (simp add: ancestors_root)
  next
    case (Some p)
    then have "(p, n) \<in> parent_rel sc" by (simp add: parent_rel_def)
    from less.IH [OF this, of ?jh1] obtain jh' where
      r: "walk_parents sc ([p], ?jh1) = Some jh'"
         "joint_set jh' = joint_set ?jh1 \<union> insert p (ancestors sc p)" "set ?jh1 \<subseteq> set jh'"
      by blast
    have "walk_parents sc ([n], jh) = walk_parents sc ([p], ?jh1)"
      using Some by (subst walk_parents_single) (simp add: listRelatives_parent_def)
    with r(1) have "walk_parents sc ([n], jh) = Some jh'" by simp
    then show ?thesis using r(2,3) js1 sub1 Some by (auto simp: ancestors_child)
  qed
qed

lemma walk_parents_of_joint:
  assumes "wf (parent_rel sc)"
  shows "\<exists>jh'. walk_parents sc (listRelatives_parent sc [j], jh @ [PyNode j]) = Some jh' \<and>
           joint_set jh' = joint_set jh \<union> insert j (ancestors sc j) \<and>
           set jh \<subseteq> set jh' \<and> PyNode j \<in> set jh'"
proof (cases "parent sc j")
  case None
  then show ?thesis
    by (auto simp: listRelatives_parent_def walk_parents_Nil ancestors_root joint_set_append
          joint_set_def)
next
  case (Some p)
  from walk_parents_from [OF assms, of p "jh @ [PyNode j]"] obtain jh' where
    r: "walk_parents sc ([p], jh @ [PyNode j]) = Some jh'"
       "joint_set jh' = joint_set (jh @ [PyNode j]) \<union> insert p (ancestors sc p)"
       "set (jh @ [PyNode j]) \<subseteq> set jh'"
    by blast
  have "joint_set (jh @ [PyNode j]) = joint_set jh \<union> {j}"
    by (simp add: joint_set_append) (simp add: joint_set_def)
  with r Some show ?thesis
    by (auto simp: listRelatives_parent_def ancestors_child)
qed

lemma ancestor_closure_empty: "ancestor_closure sc {} = {}"
  by (simp add: ancestor_closure_def)

lemma ancestor_closure_insert:
  "ancestor_closure sc (insert j J) = insert j (ancestors sc j) \<union> ancestor_closure sc J"
  by (auto simp: ancestor_closure_def)

lemma hierarchy_loop_returns:
  assumes "wf (parent_rel sc)"
  shows "\<exists>jh' jv'. hierarchy_loop sc js (jh, jv) = Some (jh', jv') \<and>
           joint_set jh' = joint_set jh \<union> ancestor_closure sc (set js) \<and>
           set jh \<subseteq> set jh' \<and> PyNode ` set js \<subseteq> set jh' \<and>
           jv' = (if js = [] then jv else Some (last js))"
proof (induction js arbitrary: jh jv)
  case Nil
  then show ?case by (simp add: ancestor_closure_empty)
next
  case (Cons j js)
  from walk_parents_of_joint [OF assms, of j jh] obtain jh1 where
    w: "walk_parents sc (listRelatives_parent sc [j], jh @ [PyNode j]) = Some jh1"
       "joint_set jh1 = joint_set jh \<union> insert j (ancestors sc j)"
       "set jh \<subseteq> set jh1" "PyNode j \<in> set jh1"
    by blast
  from Cons.IH [of jh1 "Some j"] obtain jh' jv' where
    r: "hierarchy_loop sc js (jh1, Some j) = Some (jh', jv')"
       "joint_set jh' = joint_set jh1 \<union> ancestor_closure sc (set js)"
       "set jh1 \<subseteq> set jh'" "PyNode ` set js \<subseteq> set jh'"
       "jv' = (if js = [] then Some j else Some (last js))"
    by blast
  have "hierarchy_loop sc (j # js) (jh, jv) = Some (jh', jv')"
    using w(1) r(1) by simp
  moreover have "joint_set jh' = joint_set jh \<union> ancestor_closure sc (set (j # js))"
    using w(2) r(2) by (simp add: ancestor_closure_insert Un_assoc)
  moreover have "set jh \<subseteq> set jh'" using w(3) r(3) by blast
  moreover have "PyNode ` set (j # js) \<subseteq> set jh'" using w(4) r(3,4) by auto
  moreover have "jv' = (if j # js = [] then jv else Some (last (j # js)))"
    using r(5) by simp
  ultimately show ?case by blast
qed

lemma find_root_returns:
  assumes "wf (parent_rel sc)"
  shows "\<exists>r. find_root sc n = Some r \<and> parent sc r = None \<and> (r, n) \<in> (parent_rel sc)\<^sup>*"
  using assms
proof (induction n rule: wf_induct_rule)
  case (less n)
  show ?case
  proof (cases "parent sc n")
    case None
    then have "find_root sc n = Some n"
      by (subst find_root.simps) (simp add: listRelatives_parent_def)
    with None show ?thesis by simp
  next
    case (Some p)
    then have pn: "(p, n) \<in> parent_rel sc" by (simp add: parent_rel_def)
    from less.IH [OF this] obtain r where
      r: "find_root sc p = Some r" "parent sc r = None" "(r, p) \<in> (parent_rel sc)\<^sup>*"
      by blast
    have "find_root sc n = find_root sc p"
      using Some by (subst find_root.simps) (simp add: listRelatives_parent_def)
    with r pn show ?thesis by (auto intro: rtrancl_into_rtrancl)
  qed
qed

lemma root_loop_returns:
  "find_root sc j = Some r \<Longrightarrow>
   root_loop sc (Some j) jh rv = Some (Inr (if jh = [] then rv else Some r))"
  by (induction jh arbitrary: rv) auto

section \<open>The hierarchy returned\<close>

lemma joint_set_Nil: "joint_set [] = {}"
  by (simp add: joint_set_def)

lemma hierarchy_phases:
  assumes "wf (parent_rel sc)" and "\<forall>vert \<in> set geometry. skinClusters sc vert \<noteq> []"
  shows "\<exists>infl jv jh.
           vert_loop sc geometry ([], None) = Inr (infl, jv) \<and>
           set infl = influential sc geometry \<and>
           hierarchy_loop sc infl ([], jv) = Some (jh, if infl = [] then jv else Some (last infl)) \<and>
           joint_set jh = ancestor_closure sc (set infl) \<and>
           PyNode ` set infl \<subseteq> set jh \<and> (infl = [] \<longrightarrow> jh = [])"
proof -
  from vert_loop_returns [OF assms(2), of "[]" None] obtain infl jv where
    v: "vert_loop sc geometry ([], None) = Inr (infl, jv)" "set infl = influential sc geometry"
    by auto
  from hierarchy_loop_returns [OF assms(1), of infl "[]" jv] obtain jh jv' where
    h: "hierarchy_loop sc infl ([], jv) = Some (jh, jv')"
       "joint_set jh = joint_set [] \<union> ancestor_closure sc (set infl)"
       "PyNode ` set infl \<subseteq> set jh" "jv' = (if infl = [] then jv else Some (last infl))"
    by blast
  have "infl = [] \<longrightarrow> jh = []" using h(1) by auto
  with v h show ?thesis by (simp add: joint_set_Nil)
qed

lemma get_joint_hierarchy_returns:
  assumes "wf (parent_rel sc)" and "\<forall>vert \<in> set geometry. skinClusters sc vert \<noteq> []"
  shows "\<exists>jh. get_joint_hierarchy sc geometry False = Some (Inr (Hierarchy jh)) \<and>
           joint_set jh = ancestor_closure sc (influential sc geometry)"
proof -
  from hierarchy_phases [OF assms] obtain infl jv jh where
    "vert_loop sc geometry ([], None) = Inr (infl, jv)"
    "set infl = influential sc geometry"
    "hierarchy_loop sc infl ([], jv) = Some (jh, if infl = [] then jv else Some (last infl))"
    "joint_set jh = ancestor_closure sc (set infl)"
    by blast
  then show ?thesis by (simp add: get_joint_hierarchy_def)
qed

lemma get_joint_hierarchy_raises:
  assumes "\<exists>vert \<in> set geometry. skinClusters sc vert = []"
  shows "get_joint_hierarchy sc geometry root_request = Some (Inl IndexError)"
  using vert_loop_raises [OF assms] by (simp add: get_joint_hierarchy_def)

text \<open>
  Claim C1. Take any list \<open>geometry\<close> (in particular a selection that passed validation)
  in a scene without an endless parent chain. Whenever \<^verbatim>\<open>get_joint_hierarchy\<close> with
  \<^verbatim>\<open>root_request=False\<close> returns, the set of nodes in the returned list is exactly the
  ancestor closure of the influential joints: every joint whose queried skin weight for
  some item is strictly positive, every ancestor of such a joint, and nothing else. It
  does return whenever every item has a skin deformer.
\<close>

theorem joint_hierarchy_is_ancestor_closure:
  assumes "wf (parent_rel sc)"
  shows "(\<forall>jh. get_joint_hierarchy sc geometry False = Some (Inr (Hierarchy jh)) \<longrightarrow>
            joint_set jh = ancestor_closure sc (influential sc geometry)) \<and>
         ((\<forall>vert \<in> set geometry. skinClusters sc vert \<noteq> []) \<longrightarrow>
            (\<exists>jh. get_joint_hierarchy sc geometry False = Some (Inr (Hierarchy jh))))"
proof (cases "\<forall>vert \<in> set geometry. skinClusters sc vert \<noteq> []")
  case True
  from get_joint_hierarchy_returns [OF assms True] obtain jh0 where
    r: "get_joint_hierarchy sc geometry False = Some (Inr (Hierarchy jh0))"
       "joint_set jh0 = ancestor_closure sc (influential sc geometry)"
    by blast
  show ?thesis
  proof (intro conjI allI impI)
    fix jh assume "get_joint_hierarchy sc geometry False = Some (Inr (Hierarchy jh))"
    with r(1) have "jh = jh0" by simp
    with r(2) show "joint_set jh = ancestor_closure sc (influential sc geometry)" by simp
  next
    show "\<exists>jh. get_joint_hierarchy sc geometry False = Some (Inr (Hierarchy jh))"
      using r(1) by blast
  qed
next
  case False
  then have "\<exists>vert \<in> set geometry. skinClusters sc vert = []" by blast
  then have e: "get_joint_hierarchy sc geometry False = Some (Inl IndexError)"
    by (rule get_joint_hierarchy_raises)
  show ?thesis
  proof (intro conjI allI impI)
    fix jh assume "get_joint_hierarchy sc geometry False = Some (Inr (Hierarchy jh))"
    with e show "joint_set jh = ancestor_closure sc (influential sc geometry)" by simp
  next
    assume "\<forall>vert \<in> set geometry. skinClusters sc vert \<noteq> []"
    with False show "\<exists>jh. get_joint_hierarchy sc geometry False = Some (Inr (Hierarchy jh))"
      by blast
  qed
qed

text \<open>
  Claim C5. For two meshes \<open>m1\<close> and \<open>m2\<close> whose first skin deformers are \<open>s1\<close> and
  \<open>s2\<close>, the weights of \<open>m1\<close> are queried on \<open>s1\<close> and those of \<open>m2\<close> on \<open>s2\<close>: the
  returned set is the ancestor closure of the joints with positive weight for \<open>m1\<close> on
  \<open>s1\<close> together with those with positive weight for \<open>m2\<close> on \<open>s2\<close>. So each such
  joint and all its ancestors are kept, for both meshes, whether or not the two deformers
  share joints.
\<close>

theorem two_meshes_keep_both_chains:
  assumes "wf (parent_rel sc)"
      and "skinClusters sc m1 = s1 # rest1" and "skinClusters sc m2 = s2 # rest2"
  shows "\<exists>jh. get_joint_hierarchy sc [m1, m2] False = Some (Inr (Hierarchy jh)) \<and>
           joint_set jh =
             ancestor_closure sc
               ({j \<in> set (all_joints sc).
                   j \<in> set (cluster_influences sc s1) \<and> 0 < skinPercent sc s1 m1 j} \<union>
                {j \<in> set (all_joints sc).
                   j \<in> set (cluster_influences sc s2) \<and> 0 < skinPercent sc s2 m2 j}) \<and>
           (\<forall>j \<in> set (all_joints sc).
              (j \<in> set (cluster_influences sc s1) \<and> 0 < skinPercent sc s1 m1 j) \<or>
              (j \<in> set (cluster_influences sc s2) \<and> 0 < skinPercent sc s2 m2 j) \<longrightarrow>
              j \<in> joint_set jh \<and> ancestors sc j \<subseteq> joint_set jh)"
proof -
  have sk: "\<forall>vert \<in> set [m1, m2]. skinClusters sc vert \<noteq> []" using assms(2,3) by simp
  have infl: "influential sc [m1, m2] =
      {j \<in> set (all_joints sc). j \<in> set (cluster_influences sc s1) \<and> 0 < skinPercent sc s1 m1 j} \<union>
      {j \<in> set (all_joints sc). j \<in> set (cluster_influences sc s2) \<and> 0 < skinPercent sc s2 m2 j}"
    by (simp add: influential_Cons [OF assms(2)] influential_Cons [OF assms(3)] influential_Nil)
  from get_joint_hierarchy_returns [OF assms(1) sk] obtain jh where
    r: "get_joint_hierarchy sc [m1, m2] False = Some (Inr (Hierarchy jh))"
       "joint_set jh = ancestor_closure sc (influential sc [m1, m2])"
    by blast
  show ?thesis
  proof (intro exI conjI)
    show "get_joint_hierarchy sc [m1, m2] False = Some (Inr (Hierarchy jh))" by (rule r(1))
    show "joint_set jh = ancestor_closure sc
               ({j \<in> set (all_joints sc).
                   j \<in> set (cluster_influences sc s1) \<and> 0 < skinPercent sc s1 m1 j} \<union>
                {j \<in> set (all_joints sc).
                   j \<in> set (cluster_influences sc s2) \<and> 0 < skinPercent sc s2 m2 j})"
      using r(2) infl by simp
    show "\<forall>j \<in> set (all_joints sc).
              (j \<in> set (cluster_influences sc s1) \<and> 0 < skinPercent sc s1 m1 j) \<or>
              (j \<in> set (cluster_influences sc s2) \<and> 0 < skinPercent sc s2 m2 j) \<longrightarrow>
              j \<in> joint_set jh \<and> ancestors sc j \<subseteq> joint_set jh"
      unfolding r(2) infl ancestor_closure_def by blast
  qed
qed

text \<open>
  Claim C7. When the hierarchy computed for \<open>geometry\<close> is not empty, the call with
  \<^verbatim>\<open>root_request=True\<close> returns the pair of that same hierarchy and a node \<open>r\<close> that
  has no parent and is reached by parent links from a joint \<open>j\<close> that is an element of
  the hierarchy.
\<close>

theorem root_request_returns_root:
  assumes "wf (parent_rel sc)"
      and "get_joint_hierarchy sc geometry False = Some (Inr (Hierarchy jh))"
      and "jh \<noteq> []"
  shows "\<exists>r. get_joint_hierarchy sc geometry True = Some (Inr (HierarchyRoot jh r)) \<and>
           parent sc r = None \<and>
           (\<exists>j. PyNode j \<in> set jh \<and> (r, j) \<in> (parent_rel sc)\<^sup>*)"
proof -
  have sk: "\<forall>vert \<in> set geometry. skinClusters sc vert \<noteq> []"
  proof (rule ccontr)
    assume "\<not> ?thesis"
    then have "get_joint_hierarchy sc geometry False = Some (Inl IndexError)"
      by (intro get_joint_hierarchy_raises) simp
    with assms(2) show False by simp
  qed
  from hierarchy_phases [OF assms(1) sk] obtain infl jv jh' where
    p: "vert_loop sc geometry ([], None) = Inr (infl, jv)"
       "hierarchy_loop sc infl ([], jv) = Some (jh', if infl = [] then jv else Some (last infl))"
       "PyNode ` set infl \<subseteq> set jh'" "infl = [] \<longrightarrow> jh' = []"
    by blast
  from p(1,2) assms(2) have jh': "jh' = jh" by (simp add: get_joint_hierarchy_def)
  with p(4) assms(3) have ne: "infl \<noteq> []" by auto
  then have mem: "PyNode (last infl) \<in> set jh" using p(3) jh' by auto
  from find_root_returns [OF assms(1), of "last infl"] obtain r where
    r: "find_root sc (last infl) = Some r" "parent sc r = None"
       "(r, last infl) \<in> (parent_rel sc)\<^sup>*"
    by blast
  have "root_loop sc (Some (last infl)) jh None = Some (Inr (Some r))"
    using root_loop_returns [OF r(1), of jh None] assms(3) by simp
  then have "get_joint_hierarchy sc geometry True = Some (Inr (HierarchyRoot jh r))"
    using p(1,2) jh' ne by (simp add: get_joint_hierarchy_def)
  with r(2,3) mem show ?thesis by blast
qed

section \<open>Facts about the sample scene\<close>

lemma demo_parent_depth:
  assumes "parent demo c = Some p"
  shows "demo_depth p < demo_depth c"
proof -
  from assms have "(c, p) \<in> set [(''B'', ''A''), (''C'', ''B''), (''D'', ''B''), (''F'', ''E''),
                      (''body'', ''body_grp''), (''prop'', ''prop_grp''),
                      (''hat'', ''hat_grp'')]"
    by (intro map_of_SomeD) (simp add: demo_def)
  then show ?thesis by (auto simp: demo_depth_def)
qed

lemma demo_wf: "wf (parent_rel demo)"
proof (rule wf_subset [OF wf_measure])
  show "parent_rel demo \<subseteq> measure demo_depth"
    by (auto simp: parent_rel_def dest: demo_parent_depth)
qed

lemma demo_body_hierarchy:
  "get_joint_hierarchy demo [''body''] False =
     Some (Inr (Hierarchy [PyNode ''C'', PyList [''B''], PyList [''A''], PyNode ''D'']))"
  by (simp add: get_joint_hierarchy_def demo_def listRelatives_parent_def
      walk_parents_Nil walk_parents_single)

lemma demo_two_hierarchy:
  "get_joint_hierarchy demo [''body'', ''prop''] False =
     Some (Inr (Hierarchy [PyNode ''C'', PyList [''B''], PyList [''A''], PyNode ''D'',
                           PyNode ''F'', PyList [''E'']]))"
  by (simp add: get_joint_hierarchy_def demo_def listRelatives_parent_def
      walk_parents_Nil walk_parents_single)

lemma demo_world_wf: "wf (parent_rel (the_scene demo_world))"
  by (simp add: demo_world_def demo_wf)

section \<open>Validation and the pipeline\<close>

lemma validate_loop_invalid:
  "\<exists>i \<in> set selection. objectType (the_scene w) i \<noteq> ''mesh'' \<Longrightarrow>
   validate_loop w acc selection =
     ((False, acc @ takeWhile (\<lambda>i. objectType (the_scene w) i = ''mesh'') selection),
      warning ''please select only faces'' w)"
  by (induction selection arbitrary: acc) auto

lemma validate_loop_all_mesh:
  "\<forall>i \<in> set selection. objectType (the_scene w) i = ''mesh'' \<Longrightarrow>
   validate_loop w acc selection = ((True, acc @ selection), w)"
  by (induction selection arbitrary: acc) auto

lemma validate_loop_valid:
  "validate_loop w acc selection = ((True, geometry), w') \<Longrightarrow>
     geometry = acc @ selection \<and> w' = w \<and>
     (\<forall>i \<in> set selection. objectType (the_scene w) i = ''mesh'')"
proof (induction selection arbitrary: acc)
  case Nil
  then show ?case by simp
next
  case (Cons a selection)
  then show ?case
    by (cases "objectType (the_scene w) a = ''mesh''") (auto dest!: Cons.IH)
qed

lemma the_scene_enter [simp]: "the_scene (enter f w) = the_scene w"
  by (simp add: enter_def)

lemma warnings_enter [simp]: "warnings (enter f w) = warnings w"
  by (simp add: enter_def)

lemma calls_enter [simp]: "calls (enter f w) = calls w @ [f]"
  by (simp add: enter_def)

lemma the_scene_warning [simp]: "the_scene (warning msg w) = the_scene w"
  by (simp add: warning_def)

lemma warnings_warning [simp]: "warnings (warning msg w) = warnings w @ [msg]"
  by (simp add: warning_def)

lemma calls_warning [simp]: "calls (warning msg w) = calls w"
  by (simp add: warning_def)

lemma calls_made_append [simp]: "calls w' = calls w @ cs \<Longrightarrow> calls_made w w' = cs"
  by (simp add: calls_made_def)

lemma isolate_geometry_unbound:
  "isolate_geometry module_globals h w geometry = (Inl (NameError ''mel''), w)"
  by (simp add: isolate_geometry_def name_bound_def module_globals_def)

lemma rip_rig_invalid:
  assumes "\<exists>i \<in> set selection. objectType (the_scene w) i \<noteq> ''mesh''"
  shows "rip_rig env h w selection =
           Some (Inr (), warning ''please select only faces'' (enter ''validate_selection'' w))"
proof -
  from assms have "\<exists>i \<in> set selection.
      objectType (the_scene (enter ''validate_selection'' w)) i \<noteq> ''mesh''" by simp
  from validate_loop_invalid [OF this, of "[]"] show ?thesis
    by (simp add: rip_rig_def validate_selection_def)
qed

lemma rip_rig_valid:
  assumes "\<forall>i \<in> set selection. objectType (the_scene w) i = ''mesh''"
  shows "rip_rig env h w selection =
     (case get_joint_hierarchy (the_scene w) selection False of
        None \<Rightarrow> None
      | Some (Inl e) \<Rightarrow>
          Some (Inl e, enter ''get_joint_hierarchy'' (enter ''validate_selection'' w))
      | Some (Inr joint_hierarchy) \<Rightarrow>
          (case isolate_geometry env h
                  (enter ''isolate_geometry''
                    (enter ''get_joint_hierarchy'' (enter ''validate_selection'' w))) selection of
             (Inl e, w3) \<Rightarrow> Some (Inl e, w3)
           | (Inr u, w3) \<Rightarrow>
               Some (isolate_joint_hierarchy env h
                       (enter ''isolate_joint_hierarchy'' w3) joint_hierarchy)))"
proof -
  from assms have "\<forall>i \<in> set selection.
      objectType (the_scene (enter ''validate_selection'' w)) i = ''mesh''" by simp
  from validate_loop_all_mesh [OF this, of "[]"] show ?thesis
    by (simp add: rip_rig_def validate_selection_def Let_def)
qed

text \<open>
  Claim C4. If \<^verbatim>\<open>validate_selection\<close> returns valid, every element of the returned
  geometry list is a mesh and the list is as long as the selection, so the length test of
  \<^verbatim>\<open>rip_rig\<close> cannot fail after a valid result.
\<close>

theorem validate_selection_valid_geometry:
  assumes "validate_selection w selection = ((True, geometry), w')"
  shows "(\<forall>g \<in> set geometry. objectType (the_scene w) g = ''mesh'') \<and>
         length geometry = length selection"
  using validate_loop_valid [of w "[]" selection geometry w'] assms
  by (simp add: validate_selection_def)

text \<open>
  Claim C2. For a selection with at least one object that is not a mesh, validation
  returns invalid with the meshes before the first such object and emits the warning;
  \<^verbatim>\<open>rip_rig\<close> then returns normally, having emitted that warning, with the scene as it
  was and with \<^verbatim>\<open>validate_selection\<close> as the only call it made: no deletion stage
  is invoked.
\<close>

theorem non_mesh_selection_rejected:
  assumes "\<exists>i \<in> set selection. objectType (the_scene w) i \<noteq> ''mesh''"
  shows "validate_selection w selection =
           ((False, takeWhile (\<lambda>i. objectType (the_scene w) i = ''mesh'') selection),
            warning ''please select only faces'' w) \<and>
         (\<exists>w'. rip_rig env h w selection = Some (Inr (), w') \<and>
            warnings w' = warnings w @ [''please select only faces''] \<and>
            the_scene w' = the_scene w \<and>
            calls_made w w' = [''validate_selection''])"
proof
  show "validate_selection w selection =
           ((False, takeWhile (\<lambda>i. objectType (the_scene w) i = ''mesh'') selection),
            warning ''please select only faces'' w)"
    using validate_loop_invalid [OF assms, of "[]"] by (simp add: validate_selection_def)
  show "\<exists>w'. rip_rig env h w selection = Some (Inr (), w') \<and>
            warnings w' = warnings w @ [''please select only faces''] \<and>
            the_scene w' = the_scene w \<and>
            calls_made w w' = [''validate_selection'']"
    by (simp add: rip_rig_invalid [OF assms])
qed

text \<open>
  Claim C9. For a selection of meshes of which at least one has no skin deformer in its
  history, \<^verbatim>\<open>get_joint_hierarchy\<close> raises IndexError (element 0 of an empty list), and
  the run of \<^verbatim>\<open>rip_rig\<close> ends with that uncaught error after the calls of
  \<^verbatim>\<open>validate_selection\<close> and \<^verbatim>\<open>get_joint_hierarchy\<close> only, the scene unchanged.
\<close>

theorem unskinned_mesh_aborts:
  assumes "\<forall>i \<in> set selection. objectType (the_scene w) i = ''mesh''"
      and "\<exists>vert \<in> set selection. skinClusters (the_scene w) vert = []"
  shows "get_joint_hierarchy (the_scene w) selection root_request = Some (Inl IndexError) \<and>
         (\<exists>w'. rip_rig env h w selection = Some (Inl IndexError, w') \<and>
            the_scene w' = the_scene w \<and>
            calls_made w w' = [''validate_selection'', ''get_joint_hierarchy''])"
  by (simp add: rip_rig_valid [OF assms(1)] get_joint_hierarchy_raises [OF assms(2)])

lemma isolate_geometry_bound:
  "name_bound env ''mel'' \<Longrightarrow>
   \<exists>w'. isolate_geometry env h w geometry = (Inr (), w') \<and> calls w' = calls w"
  by (simp add: isolate_geometry_def Let_def)

lemma isolate_joint_hierarchy_bound:
  "name_bound env ''mel'' \<Longrightarrow>
   \<exists>w'. isolate_joint_hierarchy env h w jh = (Inr (), w') \<and> calls w' = calls w"
  by (simp add: isolate_joint_hierarchy_def Let_def)

lemma rip_rig_unskinned:
  assumes "\<forall>i \<in> set selection. objectType (the_scene w) i = ''mesh''"
      and "\<exists>vert \<in> set selection. skinClusters (the_scene w) vert = []"
  shows "rip_rig env h w selection =
           Some (Inl IndexError, enter ''get_joint_hierarchy'' (enter ''validate_selection'' w))"
  by (simp add: rip_rig_valid [OF assms(1)] get_joint_hierarchy_raises [OF assms(2)])

lemma rip_rig_skinned_unbound:
  assumes "wf (parent_rel (the_scene w))"
      and "\<forall>i \<in> set selection. objectType (the_scene w) i = ''mesh''"
      and "\<forall>vert \<in> set selection. skinClusters (the_scene w) vert \<noteq> []"
      and "\<not> name_bound env ''mel''"
  shows "rip_rig env h w selection =
           Some (Inl (NameError ''mel''),
                 enter ''isolate_geometry''
                   (enter ''get_joint_hierarchy'' (enter ''validate_selection'' w)))"
proof -
  from get_joint_hierarchy_returns [OF assms(1,3)] obtain jh where
    "get_joint_hierarchy (the_scene w) selection False = Some (Inr (Hierarchy jh))" by blast
  then show ?thesis
    using assms(4) by (simp add: rip_rig_valid [OF assms(2)] isolate_geometry_def)
qed

lemma rip_rig_skinned_bound:
  assumes "wf (parent_rel (the_scene w))"
      and "\<forall>i \<in> set selection. objectType (the_scene w) i = ''mesh''"
      and "\<forall>vert \<in> set selection. skinClusters (the_scene w) vert \<noteq> []"
      and "name_bound env ''mel''"
  shows "\<exists>w'. rip_rig env h w selection = Some (Inr (), w') \<and>
           calls w' = calls w @ [''validate_selection'', ''get_joint_hierarchy'',
                                 ''isolate_geometry'', ''isolate_joint_hierarchy'']"
proof -
  from get_joint_hierarchy_returns [OF assms(1,3)] obtain jh where
    g: "get_joint_hierarchy (the_scene w) selection False = Some (Inr (Hierarchy jh))" by blast
  let ?w2 = "enter ''isolate_geometry''
               (enter ''get_joint_hierarchy'' (enter ''validate_selection'' w))"
  from isolate_geometry_bound [OF assms(4), of h ?w2 selection] obtain w3 where
    ig: "isolate_geometry env h ?w2 selection = (Inr (), w3)" "calls w3 = calls ?w2"
    by blast
  from isolate_joint_hierarchy_bound
         [OF assms(4), of h "enter ''isolate_joint_hierarchy'' w3" "Hierarchy jh"]
  obtain w4 where
    ij: "isolate_joint_hierarchy env h (enter ''isolate_joint_hierarchy'' w3) (Hierarchy jh)
           = (Inr (), w4)"
        "calls w4 = calls (enter ''isolate_joint_hierarchy'' w3)"
    by blast
  have "rip_rig env h w selection = Some (Inr (), w4)"
    by (simp add: rip_rig_valid [OF assms(2)] g ig(1) ij(1))
  moreover have "calls w4 = calls w @ [''validate_selection'', ''get_joint_hierarchy'',
                                 ''isolate_geometry'', ''isolate_joint_hierarchy'']"
    by (simp add: ij(2) ig(2))
  ultimately show ?thesis by blast
qed

lemma module_globals_mel: "\<not> name_bound module_globals ''mel''"
  by (simp add: name_bound_def module_globals_def)

lemma rip_rig_as_written:
  assumes "wf (parent_rel (the_scene w))"
  shows "\<exists>r w'. rip_rig module_globals h w selection = Some (r, w') \<and>
            the_scene w' = the_scene w \<and>
            ''isolate_joint_hierarchy'' \<notin> set (calls_made w w') \<and>
            ((\<forall>i \<in> set selection. objectType (the_scene w) i = ''mesh'') \<longrightarrow>
               (\<exists>e. r = Inl e) \<and>
               ((\<forall>vert \<in> set selection. skinClusters (the_scene w) vert \<noteq> []) \<longrightarrow>
                  r = Inl (NameError ''mel'') \<and>
                  calls_made w w' =
                    [''validate_selection'', ''get_joint_hierarchy'', ''isolate_geometry'']))"
proof -
  let ?P = "\<lambda>r w'. rip_rig module_globals h w selection = Some (r, w') \<and>
            the_scene w' = the_scene w \<and>
            ''isolate_joint_hierarchy'' \<notin> set (calls_made w w') \<and>
            ((\<forall>i \<in> set selection. objectType (the_scene w) i = ''mesh'') \<longrightarrow>
               (\<exists>e. r = Inl e) \<and>
               ((\<forall>vert \<in> set selection. skinClusters (the_scene w) vert \<noteq> []) \<longrightarrow>
                  r = Inl (NameError ''mel'') \<and>
                  calls_made w w' =
                    [''validate_selection'', ''get_joint_hierarchy'', ''isolate_geometry'']))"
  consider
    (invalid) "\<exists>i \<in> set selection. objectType (the_scene w) i \<noteq> ''mesh''"
  | (unskinned) "\<forall>i \<in> set selection. objectType (the_scene w) i = ''mesh''"
      "\<exists>vert \<in> set selection. skinClusters (the_scene w) vert = []"
  | (skinned) "\<forall>i \<in> set selection. objectType (the_scene w) i = ''mesh''"
      "\<forall>vert \<in> set selection. skinClusters (the_scene w) vert \<noteq> []"
    by blast
  then show "\<exists>r w'. ?P r w'"
  proof cases
    case invalid
    have "?P (Inr ()) (warning ''please select only faces'' (enter ''validate_selection'' w))"
      using invalid by (simp add: rip_rig_invalid [OF invalid])
    then show ?thesis by blast
  next
    case unskinned
    have "?P (Inl IndexError)
            (enter ''get_joint_hierarchy'' (enter ''validate_selection'' w))"
      using unskinned(2) by (simp add: rip_rig_unskinned [OF unskinned])
    then show ?thesis by blast
  next
    case skinned
    have "?P (Inl (NameError ''mel''))
            (enter ''isolate_geometry''
               (enter ''get_joint_hierarchy'' (enter ''validate_selection'' w)))"
      by (simp add: rip_rig_skinned_unbound [OF assms skinned module_globals_mel])
    then show ?thesis by blast
  qed
qed

text \<open>
  Claim C3. In the module's namespace the name \<^verbatim>\<open>mel\<close> is unbound, so
  \<^verbatim>\<open>isolate_geometry\<close> raises NameError on its first statement whenever it is called,
  before it has changed anything. Every run of \<^verbatim>\<open>rip_rig\<close> ends with the scene as it
  was and without a call of \<^verbatim>\<open>isolate_joint_hierarchy\<close>; on a selection of meshes the
  run ends with an uncaught error, which is the NameError raised in
  \<^verbatim>\<open>isolate_geometry\<close> when every mesh has a skin deformer. So the script, run on
  the host's selection, leaves the scene and with it every joint in place.
\<close>

theorem mel_unbound_aborts_run:
  assumes "wf (parent_rel (the_scene w))"
  shows "(\<forall>w0 geometry.
            isolate_geometry module_globals h w0 geometry = (Inl (NameError ''mel''), w0)) \<and>
         (\<exists>r w'. rip_rig module_globals h w selection = Some (r, w') \<and>
            the_scene w' = the_scene w \<and>
            ''isolate_joint_hierarchy'' \<notin> set (calls_made w w') \<and>
            ((\<forall>i \<in> set selection. objectType (the_scene w) i = ''mesh'') \<longrightarrow>
               (\<exists>e. r = Inl e) \<and>
               ((\<forall>vert \<in> set selection. skinClusters (the_scene w) vert \<noteq> []) \<longrightarrow>
                  r = Inl (NameError ''mel'') \<and>
                  calls_made w w' =
                    [''validate_selection'', ''get_joint_hierarchy'', ''isolate_geometry'']))) \<and>
         (\<exists>r w'. script h w = Some (r, w') \<and> the_scene w' = the_scene w)"
proof (intro conjI)
  show "\<forall>w0 geometry.
          isolate_geometry module_globals h w0 geometry = (Inl (NameError ''mel''), w0)"
    by (simp add: isolate_geometry_unbound)
  show "\<exists>r w'. rip_rig module_globals h w selection = Some (r, w') \<and>
            the_scene w' = the_scene w \<and>
            ''isolate_joint_hierarchy'' \<notin> set (calls_made w w') \<and>
            ((\<forall>i \<in> set selection. objectType (the_scene w) i = ''mesh'') \<longrightarrow>
               (\<exists>e. r = Inl e) \<and>
               ((\<forall>vert \<in> set selection. skinClusters (the_scene w) vert \<noteq> []) \<longrightarrow>
                  r = Inl (NameError ''mel'') \<and>
                  calls_made w w' =
                    [''validate_selection'', ''get_joint_hierarchy'', ''isolate_geometry'']))"
    by (rule rip_rig_as_written [OF assms])
  from rip_rig_as_written [OF assms, of h "selected (the_scene w)"]
  show "\<exists>r w'. script h w = Some (r, w') \<and> the_scene w' = the_scene w"
    unfolding script_def by blast
qed

text \<open>
  Claim C6, as amended. The walk up the parent chain is left exactly when no parent
  exists. A parent that is already in the list is not appended again, and the walk goes
  on from it to its own parent. After the walk that follows the appending of a joint
  \<open>j\<close>, the list holds what it held before, \<open>j\<close> and every ancestor of \<open>j\<close>.
\<close>

theorem walk_stops_only_at_root:
  assumes "wf (parent_rel sc)"
  shows "(walk_step sc (joint_parent, jh) = None \<longleftrightarrow> joint_parent = []) \<and>
         (joint_parent \<noteq> [] \<longrightarrow>
            walk_step sc (joint_parent, jh) =
              Some (listRelatives_parent sc joint_parent,
                    if PyList joint_parent \<in> set jh then jh else jh @ [PyList joint_parent])) \<and>
         (\<exists>jh'. walk_parents sc (listRelatives_parent sc [j], jh @ [PyNode j]) = Some jh' \<and>
            joint_set jh' = joint_set jh \<union> insert j (ancestors sc j) \<and> set jh \<subseteq> set jh')"
proof (intro conjI)
  show "walk_step sc (joint_parent, jh) = None \<longleftrightarrow> joint_parent = []"
    by (simp add: walk_step_def)
  show "joint_parent \<noteq> [] \<longrightarrow>
            walk_step sc (joint_parent, jh) =
              Some (listRelatives_parent sc joint_parent,
                    if PyList joint_parent \<in> set jh then jh else jh @ [PyList joint_parent])"
    by (simp add: walk_step_def)
  show "\<exists>jh'. walk_parents sc (listRelatives_parent sc [j], jh @ [PyNode j]) = Some jh' \<and>
            joint_set jh' = joint_set jh \<union> insert j (ancestors sc j) \<and> set jh \<subseteq> set jh'"
    using walk_parents_of_joint [OF assms, of j jh] by blast
qed

text \<open>
  Claim C8, as amended. \<^verbatim>\<open>rip_rig\<close> calls \<^verbatim>\<open>get_joint_hierarchy\<close> if and only if
  validation returned valid and the two lengths are equal, and it goes on to the first
  deletion stage, \<^verbatim>\<open>isolate_geometry\<close>, if and only if moreover
  \<^verbatim>\<open>get_joint_hierarchy\<close> returns. When validation fails or the lengths differ,
  \<^verbatim>\<open>rip_rig\<close> returns normally after the call of \<^verbatim>\<open>validate_selection\<close> alone,
  the scene unchanged.
\<close>

theorem rip_rig_guard:
  assumes "wf (parent_rel (the_scene w))"
      and "validate_selection (enter ''validate_selection'' w) selection = ((valid, geometry), w1)"
  shows "\<exists>r w'. rip_rig env h w selection = Some (r, w') \<and>
           (''get_joint_hierarchy'' \<in> set (calls_made w w') \<longleftrightarrow>
              valid \<and> length selection = length geometry) \<and>
           (''isolate_geometry'' \<in> set (calls_made w w') \<longleftrightarrow>
              valid \<and> length selection = length geometry \<and>
              (\<exists>jh. get_joint_hierarchy (the_scene w) geometry False = Some (Inr jh))) \<and>
           (\<not> (valid \<and> length selection = length geometry) \<longrightarrow>
              r = Inr () \<and> w' = w1 \<and> the_scene w' = the_scene w \<and>
              calls_made w w' = [''validate_selection''])"
proof -
  let ?w0 = "enter ''validate_selection'' w"
  let ?P = "\<lambda>r w'. rip_rig env h w selection = Some (r, w') \<and>
           (''get_joint_hierarchy'' \<in> set (calls_made w w') \<longleftrightarrow>
              valid \<and> length selection = length geometry) \<and>
           (''isolate_geometry'' \<in> set (calls_made w w') \<longleftrightarrow>
              valid \<and> length selection = length geometry \<and>
              (\<exists>jh. get_joint_hierarchy (the_scene w) geometry False = Some (Inr jh))) \<and>
           (\<not> (valid \<and> length selection = length geometry) \<longrightarrow>
              r = Inr () \<and> w' = w1 \<and> the_scene w' = the_scene w \<and>
              calls_made w w' = [''validate_selection''])"
  consider
    (invalid) "\<exists>i \<in> set selection. objectType (the_scene w) i \<noteq> ''mesh''"
  | (unskinned) "\<forall>i \<in> set selection. objectType (the_scene w) i = ''mesh''"
      "\<exists>vert \<in> set selection. skinClusters (the_scene w) vert = []"
  | (skinned) "\<forall>i \<in> set selection. objectType (the_scene w) i = ''mesh''"
      "\<forall>vert \<in> set selection. skinClusters (the_scene w) vert \<noteq> []"
    by blast
  then show ?thesis
  proof cases
    case invalid
    then have "\<exists>i \<in> set selection. objectType (the_scene ?w0) i \<noteq> ''mesh''" by simp
    from validate_loop_invalid [OF this, of "[]"] assms(2)
    have v: "valid = False" "w1 = warning ''please select only faces'' ?w0"
      by (simp_all add: validate_selection_def)
    have "?P (Inr ()) w1"
      by (simp add: rip_rig_invalid [OF invalid] v)
    then show ?thesis by blast
  next
    case unskinned
    then have "\<forall>i \<in> set selection. objectType (the_scene ?w0) i = ''mesh''" by simp
    from validate_loop_all_mesh [OF this, of "[]"] assms(2)
    have v: "valid = True" "geometry = selection"
      by (simp_all add: validate_selection_def)
    have "?P (Inl IndexError) (enter ''get_joint_hierarchy'' ?w0)"
      by (simp add: rip_rig_unskinned [OF unskinned] v
            get_joint_hierarchy_raises [OF unskinned(2)])
    then show ?thesis by blast
  next
    case skinned
    then have "\<forall>i \<in> set selection. objectType (the_scene ?w0) i = ''mesh''" by simp
    from validate_loop_all_mesh [OF this, of "[]"] assms(2)
    have v: "valid = True" "geometry = selection"
      by (simp_all add: validate_selection_def)
    from get_joint_hierarchy_returns [OF assms(1) skinned(2)] obtain jh where
      g: "get_joint_hierarchy (the_scene w) selection False = Some (Inr (Hierarchy jh))"
      by blast
    show ?thesis
    proof (cases "name_bound env ''mel''")
      case True
      from rip_rig_skinned_bound [OF assms(1) skinned True, of h] obtain w' where
        "rip_rig env h w selection = Some (Inr (), w')"
        "calls w' = calls w @ [''validate_selection'', ''get_joint_hierarchy'',
                                 ''isolate_geometry'', ''isolate_joint_hierarchy'']"
        by blast
      then have "?P (Inr ()) w'" by (simp add: v g)
      then show ?thesis by blast
    next
      case False
      have "?P (Inl (NameError ''mel''))
              (enter ''isolate_geometry'' (enter ''get_joint_hierarchy'' ?w0))"
        by (simp add: rip_rig_skinned_unbound [OF assms(1) skinned False] v g)
      then show ?thesis by blast
    qed
  qed
qed

section \<open>Instances on the sample scene\<close>

text \<open>The sample selections on which the claims above are instantiated.\<close>

theorem validate_selection_valid_geometry_witness:
  "validate_selection demo_world [''body'', ''prop''] = ((True, [''body'', ''prop'']), demo_world) \<and>
   objectType (the_scene demo_world) ''body'' = ''mesh'' \<and>
   objectType (the_scene demo_world) ''prop'' = ''mesh'' \<and>
   length [''body'', ''prop''] = length [''body'', ''prop'']"
proof -
  have v: "validate_selection demo_world [''body'', ''prop''] =
             ((True, [''body'', ''prop'']), demo_world)"
    by (simp add: validate_selection_def demo_world_def demo_def)
  from validate_selection_valid_geometry [OF v] v show ?thesis by simp
qed

theorem joint_hierarchy_is_ancestor_closure_witness:
  "wf (parent_rel demo) \<and>
   get_joint_hierarchy demo [''body''] False =
     Some (Inr (Hierarchy [PyNode ''C'', PyList [''B''], PyList [''A''], PyNode ''D''])) \<and>
   ancestor_closure demo (influential demo [''body'']) = {''A'', ''B'', ''C'', ''D''}"
proof -
  have "joint_set [PyNode ''C'', PyList [''B''], PyList [''A''], PyNode ''D''] =
          ancestor_closure demo (influential demo [''body''])"
    using joint_hierarchy_is_ancestor_closure [OF demo_wf, of "[''body'']"] demo_body_hierarchy
    by blast
  moreover have "joint_set [PyNode ''C'', PyList [''B''], PyList [''A''], PyNode ''D''] =
          {''A'', ''B'', ''C'', ''D''}"
    by (auto simp: joint_set_def)
  ultimately show ?thesis using demo_wf demo_body_hierarchy by simp
qed

theorem two_meshes_keep_both_chains_witness:
  "skinClusters demo ''body'' = [''skin1''] \<and> skinClusters demo ''prop'' = [''skin2''] \<and>
   (\<exists>jh. get_joint_hierarchy demo [''body'', ''prop''] False = Some (Inr (Hierarchy jh)) \<and>
      ''C'' \<in> joint_set jh \<and> ancestors demo ''C'' \<subseteq> joint_set jh \<and>
      ''F'' \<in> joint_set jh \<and> ancestors demo ''F'' \<subseteq> joint_set jh)"
proof -
  have s1: "skinClusters demo ''body'' = [''skin1'']"
   and s2: "skinClusters demo ''prop'' = [''skin2'']"
    by (simp_all add: demo_def)
  from two_meshes_keep_both_chains [OF demo_wf s1 s2] obtain jh where
    r: "get_joint_hierarchy demo [''body'', ''prop''] False = Some (Inr (Hierarchy jh))"
       "\<forall>j \<in> set (all_joints demo).
          (j \<in> set (cluster_influences demo ''skin1'') \<and> 0 < skinPercent demo ''skin1'' ''body'' j) \<or>
          (j \<in> set (cluster_influences demo ''skin2'') \<and> 0 < skinPercent demo ''skin2'' ''prop'' j) \<longrightarrow>
          j \<in> joint_set jh \<and> ancestors demo j \<subseteq> joint_set jh"
    by blast
  have c: "''C'' \<in> set (all_joints demo)" "''C'' \<in> set (cluster_influences demo ''skin1'')"
          "0 < skinPercent demo ''skin1'' ''body'' ''C''"
    by (simp_all add: demo_def)
  have f: "''F'' \<in> set (all_joints demo)" "''F'' \<in> set (cluster_influences demo ''skin2'')"
          "0 < skinPercent demo ''skin2'' ''prop'' ''F''"
    by (simp_all add: demo_def)
  from r(2) c have "''C'' \<in> joint_set jh \<and> ancestors demo ''C'' \<subseteq> joint_set jh" by blast
  moreover from r(2) f have "''F'' \<in> joint_set jh \<and> ancestors demo ''F'' \<subseteq> joint_set jh"
    by blast
  ultimately show ?thesis using s1 s2 r(1) by blast
qed

theorem root_request_returns_root_witness:
  "\<exists>r. get_joint_hierarchy demo [''body''] True =
          Some (Inr (HierarchyRoot
                  [PyNode ''C'', PyList [''B''], PyList [''A''], PyNode ''D''] r)) \<and>
        parent demo r = None \<and>
        (\<exists>j. PyNode j \<in> set [PyNode ''C'', PyList [''B''], PyList [''A''], PyNode ''D''] \<and>
             (r, j) \<in> (parent_rel demo)\<^sup>*)"
  by (rule root_request_returns_root [OF demo_wf demo_body_hierarchy]) simp

lemma demo_body_root:
  "get_joint_hierarchy demo [''body''] True =
     Some (Inr (HierarchyRoot
             [PyNode ''C'', PyList [''B''], PyList [''A''], PyNode ''D''] ''A''))"
proof -
  have "find_root demo ''A'' = Some ''A''"
    by (subst find_root.simps) (simp add: listRelatives_parent_def demo_def)
  then have "find_root demo ''B'' = Some ''A''"
    by (subst find_root.simps) (simp add: listRelatives_parent_def demo_def)
  then have "find_root demo ''D'' = Some ''A''"
    by (subst find_root.simps) (simp add: listRelatives_parent_def demo_def)
  then show ?thesis
    by (simp add: get_joint_hierarchy_def demo_def listRelatives_parent_def
        walk_parents_Nil walk_parents_single)
qed

theorem non_mesh_selection_rejected_witness:
  "validate_selection demo_world [''body'', ''lamp'', ''prop''] =
     ((False, [''body'']), warning ''please select only faces'' demo_world) \<and>
   (\<exists>w'. rip_rig module_globals demo_host demo_world [''body'', ''lamp'', ''prop''] =
            Some (Inr (), w') \<and>
      warnings w' = [''please select only faces''] \<and> the_scene w' = demo \<and>
      calls_made demo_world w' = [''validate_selection''])"
proof -
  have "\<exists>i \<in> set [''body'', ''lamp'', ''prop'']. objectType (the_scene demo_world) i \<noteq> ''mesh''"
    by (simp add: demo_world_def demo_def)
  from non_mesh_selection_rejected [OF this, of module_globals demo_host]
  show ?thesis by (simp add: demo_world_def demo_def)
qed

theorem unskinned_mesh_aborts_witness:
  "get_joint_hierarchy demo [''body'', ''hat''] False = Some (Inl IndexError) \<and>
   (\<exists>w'. rip_rig module_globals demo_host demo_world [''body'', ''hat''] =
            Some (Inl IndexError, w') \<and>
      the_scene w' = demo \<and>
      calls_made demo_world w' = [''validate_selection'', ''get_joint_hierarchy''])"
proof -
  have m: "\<forall>i \<in> set [''body'', ''hat'']. objectType (the_scene demo_world) i = ''mesh''"
    by (simp add: demo_world_def demo_def)
  have u: "\<exists>vert \<in> set [''body'', ''hat'']. skinClusters (the_scene demo_world) vert = []"
    by (simp add: demo_world_def demo_def)
  from unskinned_mesh_aborts [OF m u, of False module_globals demo_host]
  show ?thesis by (simp add: demo_world_def)
qed

theorem mel_unbound_aborts_run_witness:
  "isolate_geometry module_globals demo_host demo_world [''body''] =
     (Inl (NameError ''mel''), demo_world) \<and>
   (\<exists>w'. rip_rig module_globals demo_host demo_world [''body''] =
            Some (Inl (NameError ''mel''), w') \<and>
      the_scene w' = demo \<and>
      calls_made demo_world w' =
        [''validate_selection'', ''get_joint_hierarchy'', ''isolate_geometry'']) \<and>
   (\<exists>r w'. script demo_host demo_world = Some (r, w') \<and> the_scene w' = demo)"
proof -
  have m: "\<forall>i \<in> set [''body'']. objectType (the_scene demo_world) i = ''mesh''"
    by (simp add: demo_world_def demo_def)
  have k: "\<forall>vert \<in> set [''body'']. skinClusters (the_scene demo_world) vert \<noteq> []"
    by (simp add: demo_world_def demo_def)
  from mel_unbound_aborts_run [OF demo_world_wf, of demo_host "[''body'']"] m k
  show ?thesis by (auto simp: demo_world_def)
qed

theorem walk_stops_only_at_root_witness:
  "walk_step demo ([], [PyNode ''C'']) = None \<and>
   walk_step demo ([''B''], [PyNode ''C'']) = Some ([''A''], [PyNode ''C'', PyList [''B'']]) \<and>
   (\<exists>jh'. walk_parents demo ([''B''], [PyNode ''C'']) = Some jh' \<and>
      joint_set jh' = insert ''C'' (ancestors demo ''C''))"
proof -
  have p: "listRelatives_parent demo [''B''] = [''A'']"
          "listRelatives_parent demo [''C''] = [''B'']"
    by (simp_all add: listRelatives_parent_def demo_def)
  from walk_stops_only_at_root [OF demo_wf, of "[]" "[PyNode ''C'']" "''C''"]
  have 1: "walk_step demo ([], [PyNode ''C'']) = None" by simp
  from walk_stops_only_at_root [OF demo_wf, of "[''B'']" "[PyNode ''C'']" "''C''"]
  have 2: "walk_step demo ([''B''], [PyNode ''C'']) =
             Some ([''A''], [PyNode ''C'', PyList [''B'']])"
    by (simp add: p)
  from walk_stops_only_at_root [OF demo_wf, of "[]" "[]" "''C''"]
  have 3: "\<exists>jh'. walk_parents demo ([''B''], [PyNode ''C'']) = Some jh' \<and>
      joint_set jh' = insert ''C'' (ancestors demo ''C'')"
    by (simp add: p joint_set_Nil)
  from 1 2 3 show ?thesis by blast
qed

text \<open>
  Claim C6 as first stated fails. In the run on the mesh \<open>body\<close>, the joint \<open>C\<close> is
  handled first and leaves \<open>C\<close>, \<open>[B]\<close> and \<open>[A]\<close> in the list. The joint \<open>D\<close> is
  appended next, and its parent list \<open>[B]\<close> is already present; the loop is not left
  there: it goes on to \<open>[A]\<close>.
\<close>

theorem walk_past_present_parent:
  "hierarchy_loop demo [''C''] ([], None) =
     Some ([PyNode ''C'', PyList [''B''], PyList [''A'']], Some ''C'') \<and>
   listRelatives_parent demo [''D''] = [''B''] \<and>
   \<not> (walk_step demo
         ([''B''], [PyNode ''C'', PyList [''B''], PyList [''A''], PyNode ''D'']) = None \<longleftrightarrow>
       [''B''] = [] \<or>
       PyList [''B''] \<in> set [PyNode ''C'', PyList [''B''], PyList [''A''], PyNode ''D'']) \<and>
   walk_step demo ([''B''], [PyNode ''C'', PyList [''B''], PyList [''A''], PyNode ''D'']) =
     Some ([''A''], [PyNode ''C'', PyList [''B''], PyList [''A''], PyNode ''D''])"
  by (simp add: walk_step_def demo_def listRelatives_parent_def
      walk_parents_Nil walk_parents_single)

theorem rip_rig_guard_witness:
  "validate_selection (enter ''validate_selection'' demo_world) [''body''] =
     ((True, [''body'']), enter ''validate_selection'' demo_world) \<and>
   (\<exists>r w'. rip_rig module_globals demo_host demo_world [''body''] = Some (r, w') \<and>
      ''get_joint_hierarchy'' \<in> set (calls_made demo_world w') \<and>
      ''isolate_geometry'' \<in> set (calls_made demo_world w')) \<and>
   validate_selection (enter ''validate_selection'' demo_world) [''lamp''] =
     ((False, []),
      warning ''please select only faces'' (enter ''validate_selection'' demo_world)) \<and>
   (\<exists>w'. rip_rig module_globals demo_host demo_world [''lamp''] = Some (Inr (), w') \<and>
      the_scene w' = demo \<and> calls_made demo_world w' = [''validate_selection''])"
proof -
  have v: "validate_selection (enter ''validate_selection'' demo_world) [''body''] =
     ((True, [''body'']), enter ''validate_selection'' demo_world)"
    by (simp add: validate_selection_def demo_world_def demo_def)
  have g: "get_joint_hierarchy (the_scene demo_world) [''body''] False =
     Some (Inr (Hierarchy [PyNode ''C'', PyList [''B''], PyList [''A''], PyNode ''D'']))"
    by (simp add: demo_world_def demo_body_hierarchy)
  have 1: "\<exists>r w'. rip_rig module_globals demo_host demo_world [''body''] = Some (r, w') \<and>
      ''get_joint_hierarchy'' \<in> set (calls_made demo_world w') \<and>
      ''isolate_geometry'' \<in> set (calls_made demo_world w')"
    using rip_rig_guard [OF demo_world_wf v, of module_globals demo_host] g by auto
  have v': "validate_selection (enter ''validate_selection'' demo_world) [''lamp''] =
     ((False, []),
      warning ''please select only faces'' (enter ''validate_selection'' demo_world))"
    by (simp add: validate_selection_def demo_world_def demo_def)
  have 2: "\<exists>w'. rip_rig module_globals demo_host demo_world [''lamp''] = Some (Inr (), w') \<and>
      the_scene w' = demo \<and> calls_made demo_world w' = [''validate_selection'']"
    using rip_rig_guard [OF demo_world_wf v', of module_globals demo_host]
    by (auto simp: demo_world_def)
  from v 1 v' 2 show ?thesis by blast
qed

text \<open>
  Claim C8 as first stated fails. The selection of the mesh \<open>hat\<close>, which has no skin
  deformer, is valid and the lengths are equal, yet the run ends in
  \<^verbatim>\<open>get_joint_hierarchy\<close> and no deletion stage is called, whether or not the name
  \<^verbatim>\<open>mel\<close> is bound.
\<close>

theorem no_deletion_stage_despite_valid:
  "validate_selection (enter ''validate_selection'' demo_world) [''hat''] =
     ((True, [''hat'']), enter ''validate_selection'' demo_world) \<and>
   length [''hat''] = length [''hat''] \<and>
   rip_rig module_globals demo_host demo_world [''hat''] =
     Some (Inl IndexError,
           demo_world\<lparr>calls := [''validate_selection'', ''get_joint_hierarchy'']\<rparr>) \<and>
   rip_rig (''mel'' # module_globals) demo_host demo_world [''hat''] =
     Some (Inl IndexError,
           demo_world\<lparr>calls := [''validate_selection'', ''get_joint_hierarchy'']\<rparr>)"
proof -
  have m: "\<forall>i \<in> set [''hat'']. objectType (the_scene demo_world) i = ''mesh''"
    by (simp add: demo_world_def demo_def)
  have u: "\<exists>vert \<in> set [''hat'']. skinClusters (the_scene demo_world) vert = []"
    by (simp add: demo_world_def demo_def)
  have e: "enter ''get_joint_hierarchy'' (enter ''validate_selection'' demo_world) =
             demo_world\<lparr>calls := [''validate_selection'', ''get_joint_hierarchy'']\<rparr>"
    by (simp add: enter_def demo_world_def)
  have "validate_selection (enter ''validate_selection'' demo_world) [''hat''] =
     ((True, [''hat'']), enter ''validate_selection'' demo_world)"
    by (simp add: validate_selection_def demo_world_def demo_def)
  then show ?thesis by (simp add: rip_rig_unskinned [OF m u] e)
qed

end
